theory Spec2Isabelle
  imports Main "HOL-Library.Word"
begin

section \<open>The cloud session of ArduinoIoTCloudTCP.cpp\<close>

text \<open>
  The connection state machine of \<^verbatim>\<open>ArduinoIoTCloudTCP\<close>: the member fields the
  handlers read and write are a record, every handler is a function from that record to
  the next state and the updated record.  The collaborators of the class (connection
  handler, MQTT client, CBOR codec, clock) are not part of the file; what they answer
  during one call is an argument of the function that makes the call, and the calls that
  leave the device (stop, subscribe, publish, decode, cloud event) are appended to a log
  kept in the record.
\<close>

subsection \<open>Data\<close>

type_synonym byte = "8 word"
type_synonym topic = string

text \<open>\<^verbatim>\<open>enum class State\<close>, in the order of the switch in \<^verbatim>\<open>update()\<close>.\<close>

datatype State =
    ConnectPhy
  | SyncTime
  | ConnectMqttBroker
  | SubscribeMqttTopics
  | RequestLastValues
  | Connected

datatype ArduinoIoTCloudEvent = SYNC | CONNECT | DISCONNECT

text \<open>
  \<^verbatim>\<open>CborError\<close>: the source only compares against \<^verbatim>\<open>CborNoError\<close>; every other
  value of the enumeration is kept by its number.
\<close>

datatype CborError = CborNoError | CborErrorOther nat

text \<open>
  The calls that leave the object.  \<open>MqttPublish t bs r\<close> is one call of
  \<^verbatim>\<open>write(t, data, length)\<close> with \<open>bs\<close> the first \<open>length\<close> bytes of \<open>data\<close> and \<open>r\<close>
  the value it returned; \<open>CborDecode bs sync\<close> is one call of
  \<^verbatim>\<open>CBORDecoder::decode\<close> with its \<^verbatim>\<open>isSyncMessage\<close> argument.
\<close>

datatype action =
    MqttStop
  | MqttSubscribe topic
  | MqttPublish topic "byte list" int
  | CborDecode "byte list" bool
  | CloudEvent ArduinoIoTCloudEvent

text \<open>
  The member fields.  \<^verbatim>\<open>unsigned long\<close> is 32 bits wide on the boards the library
  targets.  \<open>system_reset\<close> is not a field of the class: it records that
  \<^verbatim>\<open>NVIC_SystemReset()\<close> was called, after which nothing of the running call is executed.
  \<open>trace\<close> is the log of the calls listed above, oldest first.
\<close>

record cloud =
  state :: State
  lastSyncRequestTickTime :: "32 word"
  mqtt_data_buf :: "byte list"
  mqtt_data_len :: int
  mqtt_data_request_retransmit :: bool
  shadowTopicOut :: topic
  shadowTopicIn :: topic
  dataTopicOut :: topic
  dataTopicIn :: topic
  system_reset :: bool
  trace :: "action list"

text \<open>
  The preprocessor symbols that select code in the handlers.  They are defined in
  \<^verbatim>\<open>AIoTC_Config.h\<close> and by the compiler, so they are parameters here.
\<close>

record config =
  OTA_ENABLED :: bool
  OTA_STORAGE_SNU :: bool
  AVR :: bool

text \<open>What the MQTT client answers to the three calls of one \<^verbatim>\<open>write()\<close>.\<close>

record mqtt_write =
  beginMessage_ok :: bool
  write_ok :: bool
  endMessage_ok :: bool

text \<open>
  What \<^verbatim>\<open>CBOREncoder::encode\<close> leaves behind in one \<^verbatim>\<open>sendPropertiesToCloud()\<close>: its
  return value, the local array \<^verbatim>\<open>data\<close> and \<^verbatim>\<open>bytes_encoded\<close>; and the answers of
  the MQTT client to the \<^verbatim>\<open>write()\<close> that may follow.
\<close>

record send_env =
  enc_error :: CborError
  enc_data :: "byte list"
  bytes_encoded :: int
  enc_write :: mqtt_write

text \<open>
  One inbound message as \<^verbatim>\<open>handleMessage\<close> reads it from the client: its topic and
  its \<^verbatim>\<open>length\<close> bytes.  \<open>msg_malformed\<close> says whether the bytes fail to decode; the
  calls of \<^verbatim>\<open>CBORDecoder::decode\<close> give nothing back that the source looks at, so no
  function below reads it.  \<open>msg_send\<close> belongs to the \<^verbatim>\<open>sendPropertiesToCloud()\<close>
  of the shadow branch.
\<close>

record message =
  msg_topic :: topic
  msg_bytes :: "byte list"
  msg_malformed :: bool
  msg_send :: send_env

text \<open>
  What the collaborators answer during one \<^verbatim>\<open>update()\<close>, one field per call site:
  \<^item> \<open>net_connected\<close>: \<^verbatim>\<open>_connection->check() == NetworkConnectionState::CONNECTED\<close>;
  \<^item> \<open>broker_connect_ok\<close>: \<^verbatim>\<open>_mqttClient.connect(...)\<close>;
  \<^item> \<open>subscribe_data_ok\<close>, \<open>subscribe_shadow_ok\<close>: the two \<^verbatim>\<open>subscribe\<close> calls;
  \<^item> \<open>millis\<close>: \<^verbatim>\<open>millis()\<close> in \<^verbatim>\<open>handle_RequestLastValues\<close>, \<open>request_write\<close> the
    write of \<^verbatim>\<open>requestLastValue\<close>;
  \<^item> \<open>mqtt_connected\<close>: \<^verbatim>\<open>_mqttClient.connected()\<close> in \<^verbatim>\<open>handle_Connected\<close>;
  \<^item> \<open>retransmit_write\<close>: the write of the retransmission, \<open>props_send\<close> the
    \<^verbatim>\<open>sendPropertiesToCloud()\<close> that follows it;
  \<^item> \<open>ota_req\<close>: the member \<^verbatim>\<open>_ota_req\<close> when it is tested (it is bound to the cloud
    property OTA_REQ and written by the decoder through the property container),
    \<open>ota_send\<close> the second \<^verbatim>\<open>sendPropertiesToCloud()\<close>, \<open>ota_download_ok\<close> the result of
    \<^verbatim>\<open>WiFiStorage.downloadOTA\<close>;
  \<^item> \<open>connected_at_poll\<close>: \<^verbatim>\<open>_mqttClient.connected()\<close> at the end of \<^verbatim>\<open>update()\<close>,
    \<open>inbound\<close> the messages for which \<^verbatim>\<open>poll()\<close> calls \<^verbatim>\<open>onMessage\<close>, in order.
\<close>

record env =
  net_connected :: bool
  broker_connect_ok :: bool
  subscribe_data_ok :: bool
  subscribe_shadow_ok :: bool
  millis :: "32 word"
  request_write :: mqtt_write
  mqtt_connected :: bool
  retransmit_write :: mqtt_write
  props_send :: send_env
  ota_req :: bool
  ota_send :: send_env
  ota_download_ok :: bool
  connected_at_poll :: bool
  inbound :: "message list"

subsection \<open>Constants\<close>

definition TIMEOUT_FOR_LASTVALUES_SYNC :: int where
  "TIMEOUT_FOR_LASTVALUES_SYNC = 10000"

definition CBOR_REQUEST_LAST_VALUE_MSG :: "byte list" where
  "CBOR_REQUEST_LAST_VALUE_MSG =
     [0x81, 0xA2, 0x00, 0x63, 0x72, 0x3A, 0x6D, 0x03, 0x6D, 0x67, 0x65,
      0x74, 0x4C, 0x61, 0x73, 0x74, 0x56, 0x61, 0x6C, 0x75, 0x65, 0x73]"

subsection \<open>Construction and begin\<close>

text \<open>
  The constructor.  The capacity of \<^verbatim>\<open>_mqtt_data_buf\<close> is
  \<^verbatim>\<open>MQTT_TRANSMIT_BUFFER_SIZE\<close>, declared in the header; it is the argument \<open>cap\<close>.
\<close>

definition ArduinoIoTCloudTCP :: "nat \<Rightarrow> cloud" where
  "ArduinoIoTCloudTCP cap =
     \<lparr> state = ConnectPhy,
       lastSyncRequestTickTime = 0,
       mqtt_data_buf = replicate cap 0,
       mqtt_data_len = 0,
       mqtt_data_request_retransmit = False,
       shadowTopicOut = [],
       shadowTopicIn = [],
       dataTopicOut = [],
       dataTopicIn = [],
       system_reset = False,
       trace = [] \<rparr>"

text \<open>
  \<^verbatim>\<open>begin(brokerAddress, brokerPort)\<close>: returns 0 before the topics are assigned when
  the firmware or the crypto element is rejected (\<open>hw_ok\<close> false), else assigns the four
  topics (the results of \<^verbatim>\<open>getTopic_shadowout()\<close>, \<^verbatim>\<open>getTopic_shadowin()\<close>,
  \<^verbatim>\<open>getTopic_dataout()\<close>, \<^verbatim>\<open>getTopic_datain()\<close>, in this order) and returns 1.
\<close>

definition begin_tcp :: "bool \<Rightarrow> topic \<Rightarrow> topic \<Rightarrow> topic \<Rightarrow> topic \<Rightarrow> cloud \<Rightarrow> int \<times> cloud" where
  "begin_tcp hw_ok so si dout din s =
     (if \<not> hw_ok then (0, s)
      else (1, s\<lparr> shadowTopicOut := so, shadowTopicIn := si,
                   dataTopicOut := dout, dataTopicIn := din \<rparr>))"

subsection \<open>Private member functions\<close>

definition record_action :: "action \<Rightarrow> cloud \<Rightarrow> cloud" where
  "record_action a s = s\<lparr> trace := trace s @ [a] \<rparr>"

definition execCloudEventCallback :: "ArduinoIoTCloudEvent \<Rightarrow> cloud \<Rightarrow> cloud" where
  "execCloudEventCallback ev s = record_action (CloudEvent ev) s"

text \<open>\<^verbatim>\<open>memcpy(dst, src, n)\<close> on arrays that hold at least \<open>n\<close> bytes.\<close>

definition memcpy :: "byte list \<Rightarrow> byte list \<Rightarrow> nat \<Rightarrow> byte list" where
  "memcpy dst src n = take n src @ drop n dst"

text \<open>
  \<^verbatim>\<open>write(topic, data, length)\<close>; the name \<open>write\<close> is taken in Isabelle, as is
  \<open>begin\<close> above.
\<close>

definition write_msg :: "mqtt_write \<Rightarrow> topic \<Rightarrow> byte list \<Rightarrow> int \<Rightarrow> cloud \<Rightarrow> int \<times> cloud" where
  "write_msg w tpc data len s =
     (let r = (if beginMessage_ok w then
                 (if write_ok w then
                    (if endMessage_ok w then 1 else 0)
                  else 0)
               else 0)
      in (r, record_action (MqttPublish tpc (take (nat len) data) r) s))"

definition requestLastValue :: "mqtt_write \<Rightarrow> cloud \<Rightarrow> cloud" where
  "requestLastValue w s =
     snd (write_msg w (shadowTopicOut s) CBOR_REQUEST_LAST_VALUE_MSG
            (int (length CBOR_REQUEST_LAST_VALUE_MSG)) s)"

definition sendPropertiesToCloud :: "send_env \<Rightarrow> cloud \<Rightarrow> cloud" where
  "sendPropertiesToCloud e s =
     (if enc_error e = CborNoError then
        (if bytes_encoded e > 0 then
           (let s1 = s\<lparr> mqtt_data_len := bytes_encoded e \<rparr>;
                s2 = s1\<lparr> mqtt_data_buf :=
                           memcpy (mqtt_data_buf s1) (enc_data e) (nat (mqtt_data_len s1)) \<rparr>
            in snd (write_msg (enc_write e) (dataTopicOut s2) (mqtt_data_buf s2) (mqtt_data_len s2) s2))
         else s)
      else s)"

text \<open>
  \<^verbatim>\<open>onOTARequest\<close>: without \<^verbatim>\<open>OTA_STORAGE_SNU\<close> the download flag stays false and
  nothing happens; with it a failed download returns (the error code it stores is not a
  field of the record), a successful one resets the board unless on AVR.
\<close>

definition onOTARequest :: "config \<Rightarrow> bool \<Rightarrow> cloud \<Rightarrow> cloud" where
  "onOTARequest cfg download_ok s =
     (if OTA_STORAGE_SNU cfg then
        (if \<not> download_ok then s
         else if \<not> AVR cfg then s\<lparr> system_reset := True \<rparr>
         else s)
      else s)"

definition handle_ConnectPhy :: "env \<Rightarrow> cloud \<Rightarrow> State \<times> cloud" where
  "handle_ConnectPhy e s =
     (if net_connected e then (SyncTime, s) else (ConnectPhy, s))"

text \<open>\<^verbatim>\<open>handle_SyncTime\<close> reads the time service for a debug message and moves on.\<close>

definition handle_SyncTime :: "env \<Rightarrow> cloud \<Rightarrow> State \<times> cloud" where
  "handle_SyncTime e s = (ConnectMqttBroker, s)"

definition handle_ConnectMqttBroker :: "env \<Rightarrow> cloud \<Rightarrow> State \<times> cloud" where
  "handle_ConnectMqttBroker e s =
     (if broker_connect_ok e then (SubscribeMqttTopics, s) else (ConnectPhy, s))"

definition handle_SubscribeMqttTopics :: "env \<Rightarrow> cloud \<Rightarrow> State \<times> cloud" where
  "handle_SubscribeMqttTopics e s =
     (let s1 = record_action (MqttSubscribe (dataTopicIn s)) s in
      if \<not> subscribe_data_ok e then (SubscribeMqttTopics, s1)
      else
        (let s2 = (if shadowTopicIn s1 \<noteq> [] then
                     record_action (MqttSubscribe (shadowTopicIn s1)) s1
                   else s1) in
         if shadowTopicIn s1 \<noteq> [] \<and> \<not> subscribe_shadow_ok e then (SubscribeMqttTopics, s2)
         else
           (let s3 = execCloudEventCallback CONNECT s2 in
            if shadowTopicIn s3 \<noteq> [] then (RequestLastValues, s3)
            else (Connected, s3))))"

text \<open>
  The comparison is made in \<^verbatim>\<open>unsigned long\<close>: the subtraction wraps around and the
  \<^verbatim>\<open>int\<close> constant is converted.
\<close>

definition handle_RequestLastValues :: "env \<Rightarrow> cloud \<Rightarrow> State \<times> cloud" where
  "handle_RequestLastValues e s =
     (let now = millis e in
      if now - lastSyncRequestTickTime s > word_of_int TIMEOUT_FOR_LASTVALUES_SYNC then
        (RequestLastValues,
         (requestLastValue (request_write e) s)\<lparr> lastSyncRequestTickTime := now \<rparr>)
      else (RequestLastValues, s))"

text \<open>
  \<^verbatim>\<open>updateTimestampOnLocallyChangedProperties\<close> acts on the property container only;
  what the container holds shows in what the encoder returns.  The block under
  \<^verbatim>\<open>OTA_ENABLED\<close> assigns \<^verbatim>\<open>_ota_error\<close> and \<^verbatim>\<open>_ota_req\<close>, which are properties of the
  container too.
\<close>

definition handle_Connected :: "config \<Rightarrow> env \<Rightarrow> cloud \<Rightarrow> State \<times> cloud" where
  "handle_Connected cfg e s =
     (if \<not> mqtt_connected e then
        (let s1 = record_action MqttStop s;
             s2 = s1\<lparr> mqtt_data_request_retransmit := True \<rparr>;
             s3 = execCloudEventCallback DISCONNECT s2
         in (ConnectPhy, s3))
      else
        (let s1 = (if mqtt_data_request_retransmit s \<and> mqtt_data_len s > 0 then
                     (snd (write_msg (retransmit_write e) (dataTopicOut s) (mqtt_data_buf s)
                             (mqtt_data_len s) s))
                       \<lparr> mqtt_data_request_retransmit := False \<rparr>
                   else s);
             s2 = sendPropertiesToCloud (props_send e) s1;
             s3 = (if OTA_ENABLED cfg \<and> ota_req e then
                     onOTARequest cfg (ota_download_ok e)
                       (sendPropertiesToCloud (ota_send e) s2)
                   else s2)
         in (Connected, s3)))"

definition decode :: "byte list \<Rightarrow> bool \<Rightarrow> cloud \<Rightarrow> cloud" where
  "decode bs isSyncMessage s = record_action (CborDecode bs isSyncMessage) s"

definition handleMessage :: "message \<Rightarrow> cloud \<Rightarrow> cloud" where
  "handleMessage m s =
     (let s1 = (if dataTopicIn s = msg_topic m then decode (msg_bytes m) False s else s) in
      if shadowTopicIn s1 = msg_topic m \<and> state s1 = RequestLastValues then
        (let s2 = decode (msg_bytes m) True s1;
             s3 = sendPropertiesToCloud (msg_send m) s2;
             s4 = execCloudEventCallback SYNC s3
         in s4\<lparr> state := Connected \<rparr>)
      else s1)"

text \<open>\<^verbatim>\<open>_mqttClient.poll()\<close>: the callback runs once for each message, in order.\<close>

fun poll :: "message list \<Rightarrow> cloud \<Rightarrow> cloud" where
  "poll [] s = s"
| "poll (m # ms) s = poll ms (handleMessage m s)"

subsection \<open>update\<close>

definition update :: "config \<Rightarrow> env \<Rightarrow> cloud \<Rightarrow> cloud" where
  "update cfg e s =
     (let (next_state, s1) =
            (case state s of
               ConnectPhy \<Rightarrow> handle_ConnectPhy e s
             | SyncTime \<Rightarrow> handle_SyncTime e s
             | ConnectMqttBroker \<Rightarrow> handle_ConnectMqttBroker e s
             | SubscribeMqttTopics \<Rightarrow> handle_SubscribeMqttTopics e s
             | RequestLastValues \<Rightarrow> handle_RequestLastValues e s
             | Connected \<Rightarrow> handle_Connected cfg e s)
      in if system_reset s1 then s1
         else
           (let s2 = s1\<lparr> state := next_state \<rparr> in
            if connected_at_poll e then poll (inbound e) s2 else s2))"

text \<open>
  A session: the calls of \<^verbatim>\<open>update()\<close> made by the sketch, one \<open>env\<close> each; it ends
  when the board is reset.
\<close>

fun run :: "config \<Rightarrow> env list \<Rightarrow> cloud \<Rightarrow> cloud" where
  "run cfg [] s = s"
| "run cfg (e # es) s =
     (let s' = update cfg e s in
      if system_reset s' then s' else run cfg es s')"

subsection \<open>Reading the log\<close>

text \<open>The calls logged between an earlier record \<open>s\<close> and a later one \<open>s'\<close>.\<close>

definition emitted :: "cloud \<Rightarrow> cloud \<Rightarrow> action list" where
  "emitted s s' = drop (length (trace s)) (trace s')"

text \<open>The first \<^verbatim>\<open>_mqtt_data_len\<close> bytes of \<^verbatim>\<open>_mqtt_data_buf\<close>: what a retransmission sends.\<close>

definition payload :: "cloud \<Rightarrow> byte list" where
  "payload s = take (nat (mqtt_data_len s)) (mqtt_data_buf s)"

text \<open>The value \<^verbatim>\<open>write()\<close> returns for given answers of the client.\<close>

definition wire_result :: "mqtt_write \<Rightarrow> int" where
  "wire_result w = (if beginMessage_ok w \<and> write_ok w \<and> endMessage_ok w then 1 else 0)"

text \<open>
  The condition under which \<^verbatim>\<open>sendPropertiesToCloud()\<close> stores and publishes: the
  encoder reports no error and at least one byte.
\<close>

definition sends :: "send_env \<Rightarrow> bool" where
  "sends e = (enc_error e = CborNoError \<and> 0 < bytes_encoded e)"

text \<open>The decode calls that messages on the data-in topic \<open>din\<close> cause, in order.\<close>

definition data_decodes :: "topic \<Rightarrow> message list \<Rightarrow> action list" where
  "data_decodes din ms =
     map (\<lambda>m. CborDecode (msg_bytes m) False) (filter (\<lambda>m. din = msg_topic m) ms)"

text \<open>The topic and bytes of the publish calls in a log, in order.\<close>

fun published :: "action list \<Rightarrow> (topic \<times> byte list) list" where
  "published [] = []"
| "published (MqttPublish t bs r # as) = (t, bs) # published as"
| "published (a # as) = published as"

text \<open>
  \<open>kept s s'\<close>: from \<open>s\<close> to \<open>s'\<close> the retransmission buffer, its length, the
  retransmission flag, the topics and the reset marker are unchanged, and nothing was
  published but reconciliation requests.
\<close>

definition kept :: "cloud \<Rightarrow> cloud \<Rightarrow> bool" where
  "kept s s' =
     (mqtt_data_buf s' = mqtt_data_buf s \<and> mqtt_data_len s' = mqtt_data_len s \<and>
      mqtt_data_request_retransmit s' = mqtt_data_request_retransmit s \<and>
      shadowTopicOut s' = shadowTopicOut s \<and> shadowTopicIn s' = shadowTopicIn s \<and>
      dataTopicOut s' = dataTopicOut s \<and> dataTopicIn s' = dataTopicIn s \<and>
      system_reset s' = system_reset s \<and>
      (\<exists>tr. trace s' = trace s @ tr \<and>
            set (published tr) \<subseteq> {(shadowTopicOut s, CBOR_REQUEST_LAST_VALUE_MSG)}))"

subsection \<open>Example sessions\<close>

text \<open>
  Concrete inputs on which the theorems below are evaluated: a client that accepts every
  write, an encoder with nothing to send and one that encodes the bytes \<open>bs\<close> into an
  8-byte array, a build without OTA, a tick in which every collaborator answers yes at
  clock value 20000 and one in which the transport reports disconnected, a message on
  the shadow-in topic, and a board with an 8-byte buffer after \<^verbatim>\<open>begin()\<close>, without and
  with shadow topics.
\<close>

definition wire_ok :: mqtt_write where
  "wire_ok = \<lparr> beginMessage_ok = True, write_ok = True, endMessage_ok = True \<rparr>"

definition nothing_to_send :: send_env where
  "nothing_to_send =
     \<lparr> enc_error = CborNoError, enc_data = replicate 8 0, bytes_encoded = 0,
       enc_write = wire_ok \<rparr>"

definition sending :: "byte list \<Rightarrow> send_env" where
  "sending bs =
     \<lparr> enc_error = CborNoError, enc_data = bs @ replicate (8 - length bs) 0,
       bytes_encoded = int (length bs), enc_write = wire_ok \<rparr>"

definition cfg_plain :: config where
  "cfg_plain = \<lparr> OTA_ENABLED = False, OTA_STORAGE_SNU = False, AVR = False \<rparr>"

definition env_up :: env where
  "env_up =
     \<lparr> net_connected = True, broker_connect_ok = True, subscribe_data_ok = True,
       subscribe_shadow_ok = True, millis = 20000, request_write = wire_ok,
       mqtt_connected = True, retransmit_write = wire_ok, props_send = nothing_to_send,
       ota_req = False, ota_send = nothing_to_send, ota_download_ok = False,
       connected_at_poll = True, inbound = [] \<rparr>"

definition env_down :: env where
  "env_down = env_up\<lparr> mqtt_connected := False, connected_at_poll := False \<rparr>"

definition shadow_reply :: "bool \<Rightarrow> send_env \<Rightarrow> message" where
  "shadow_reply bad se =
     \<lparr> msg_topic = ''si'', msg_bytes = [0xA0], msg_malformed = bad, msg_send = se \<rparr>"

definition boot_plain :: cloud where
  "boot_plain = snd (begin_tcp True [] [] ''do'' ''di'' (ArduinoIoTCloudTCP 8))"

definition boot_shadow :: cloud where
  "boot_shadow = snd (begin_tcp True ''so'' ''si'' ''do'' ''di'' (ArduinoIoTCloudTCP 8))"

text \<open>The session without shadow topics after four ticks: Connected, nothing sent yet.\<close>

definition conn_plain :: cloud where
  "conn_plain = run cfg_plain [env_up, env_up, env_up, env_up] boot_plain"

text \<open>
  The session with shadow topics: after four ticks in RequestLastValues; after a fifth
  the request is out; after a sixth that polls the reply it is Connected; then a tick
  that encodes and publishes the byte 1, then a tick that finds the transport down.
\<close>

definition sess_subscribed :: cloud where
  "sess_subscribed = run cfg_plain [env_up, env_up, env_up, env_up] boot_shadow"

definition sess_waiting :: cloud where
  "sess_waiting = update cfg_plain env_up sess_subscribed"

definition sess_synced :: cloud where
  "sess_synced =
     update cfg_plain (env_up\<lparr> inbound := [shadow_reply False nothing_to_send] \<rparr>) sess_waiting"

definition sess_sent :: cloud where
  "sess_sent = update cfg_plain (env_up\<lparr> props_send := sending [1] \<rparr>) sess_synced"

definition sess_lost :: cloud where
  "sess_lost = update cfg_plain env_down sess_sent"

text \<open>
  The reconnection of that session, at clock value 40000: four ticks back to
  RequestLastValues, a tick that sends the request, and a tick that polls the reply.
  In \<open>reconnect_ticks\<close> handling the reply encodes and publishes the byte 2, in
  \<open>quiet_ticks\<close> it encodes nothing.
\<close>

definition env_late :: env where
  "env_late = env_up\<lparr> millis := 40000 \<rparr>"

definition reconnect_ticks :: "env list" where
  "reconnect_ticks =
     [env_up, env_up, env_up, env_up, env_late,
      env_late\<lparr> inbound := [shadow_reply False (sending [2])] \<rparr>]"

definition quiet_ticks :: "env list" where
  "quiet_ticks =
     [env_up, env_up, env_up, env_up, env_late,
      env_late\<lparr> inbound := [shadow_reply False nothing_to_send] \<rparr>]"

definition sess_back :: cloud where
  "sess_back = run cfg_plain reconnect_ticks sess_lost"

definition sess_quiet_back :: cloud where
  "sess_quiet_back = run cfg_plain quiet_ticks sess_lost"

section \<open>Basic facts about the member functions\<close>

lemma published_append: "published (xs @ ys) = published xs @ published ys"
  by (induction xs rule: published.induct) simp_all

lemma published_decodes: "published (map (\<lambda>m. CborDecode (f m) b) ms) = []"
  by (induction ms) simp_all

lemma published_data_decodes: "published (data_decodes din ms) = []"
  by (simp add: data_decodes_def published_decodes)

lemma not_in_data_decodes:
  "MqttStop \<notin> set (data_decodes din ms)"
  "CloudEvent ev \<notin> set (data_decodes din ms)"
  "CborDecode bs True \<notin> set (data_decodes din ms)"
  by (auto simp: data_decodes_def)

lemma write_msg_eq:
  "write_msg w t d l s =
     (wire_result w,
      s\<lparr> trace := trace s @ [MqttPublish t (take (nat l) d) (wire_result w)] \<rparr>)"
  by (simp add: write_msg_def wire_result_def record_action_def)

lemma sendPropertiesToCloud_eq:
  "sendPropertiesToCloud e s =
     (if sends e then
        s\<lparr> mqtt_data_len := bytes_encoded e,
           mqtt_data_buf := memcpy (mqtt_data_buf s) (enc_data e) (nat (bytes_encoded e)),
           trace := trace s @
             [MqttPublish (dataTopicOut s)
                (take (nat (bytes_encoded e))
                   (memcpy (mqtt_data_buf s) (enc_data e) (nat (bytes_encoded e))))
                (wire_result (enc_write e))] \<rparr>
      else s)"
  by (simp add: sendPropertiesToCloud_def sends_def write_msg_eq Let_def)

subsection \<open>Inbound messages\<close>

lemma handleMessage_idle:
  "state s \<noteq> RequestLastValues \<Longrightarrow>
   handleMessage m s = s\<lparr> trace := trace s @ data_decodes (dataTopicIn s) [m] \<rparr>"
  by (simp add: handleMessage_def decode_def record_action_def data_decodes_def Let_def)

lemma poll_idle:
  "state s \<noteq> RequestLastValues \<Longrightarrow>
   poll ms s = s\<lparr> trace := trace s @ data_decodes (dataTopicIn s) ms \<rparr>"
proof (induction ms arbitrary: s)
  case Nil
  then show ?case by (simp add: data_decodes_def)
next
  case (Cons m ms)
  then show ?case by (simp add: handleMessage_idle data_decodes_def)
qed

lemma handleMessage_quiet:
  "\<not> sends (msg_send m) \<Longrightarrow>
   handleMessage m s =
     (if shadowTopicIn s = msg_topic m \<and> state s = RequestLastValues then
        s\<lparr> state := Connected,
           trace := trace s @ data_decodes (dataTopicIn s) [m] @
                    [CborDecode (msg_bytes m) True, CloudEvent SYNC] \<rparr>
      else s\<lparr> trace := trace s @ data_decodes (dataTopicIn s) [m] \<rparr>)"
  by (simp add: handleMessage_def decode_def record_action_def data_decodes_def Let_def
      sendPropertiesToCloud_eq execCloudEventCallback_def)

lemma handleMessage_flag:
  "mqtt_data_request_retransmit (handleMessage m s) = mqtt_data_request_retransmit s"
  "lastSyncRequestTickTime (handleMessage m s) = lastSyncRequestTickTime s"
  "shadowTopicIn (handleMessage m s) = shadowTopicIn s"
  "system_reset (handleMessage m s) = system_reset s"
  by (simp_all add: handleMessage_def decode_def record_action_def Let_def
      sendPropertiesToCloud_eq execCloudEventCallback_def)

lemma poll_flag:
  "mqtt_data_request_retransmit (poll ms s) = mqtt_data_request_retransmit s"
  by (induction ms arbitrary: s) (simp_all add: handleMessage_flag)

subsection \<open>What a reconnection keeps\<close>

lemma kept_refl: "kept s s"
  by (simp add: kept_def)

lemma kept_trans:
  assumes "kept s s'" and "kept s' s''"
  shows "kept s s''"
proof -
  from assms(1) obtain tr where tr: "trace s' = trace s @ tr"
    "set (published tr) \<subseteq> {(shadowTopicOut s, CBOR_REQUEST_LAST_VALUE_MSG)}"
    by (auto simp: kept_def)
  from assms(2) obtain tr' where tr': "trace s'' = trace s' @ tr'"
    "set (published tr') \<subseteq> {(shadowTopicOut s', CBOR_REQUEST_LAST_VALUE_MSG)}"
    by (auto simp: kept_def)
  have so: "shadowTopicOut s' = shadowTopicOut s" using assms(1) by (simp add: kept_def)
  have "trace s'' = trace s @ (tr @ tr')" using tr(1) tr'(1) by simp
  moreover have "set (published (tr @ tr')) \<subseteq> {(shadowTopicOut s, CBOR_REQUEST_LAST_VALUE_MSG)}"
    using tr(2) tr'(2) so by (simp add: published_append)
  ultimately have "\<exists>t. trace s'' = trace s @ t \<and>
      set (published t) \<subseteq> {(shadowTopicOut s, CBOR_REQUEST_LAST_VALUE_MSG)}"
    by blast
  then show ?thesis using assms by (simp add: kept_def)
qed

lemma kept_state_upd: "kept s s' \<Longrightarrow> kept s (s'\<lparr> state := st \<rparr>)"
  by (simp add: kept_def)

lemma handleMessage_kept:
  assumes "msg_topic m = shadowTopicIn s \<longrightarrow> \<not> sends (msg_send m)"
  shows "kept s (handleMessage m s)"
proof (cases "shadowTopicIn s = msg_topic m \<and> state s = RequestLastValues")
  case True
  then have "\<not> sends (msg_send m)" using assms by simp
  then show ?thesis
    by (simp add: handleMessage_quiet kept_def published_append published_data_decodes)
next
  case False
  then have "handleMessage m s = s\<lparr> trace := trace s @ data_decodes (dataTopicIn s) [m] \<rparr>"
    by (auto simp: handleMessage_def decode_def record_action_def data_decodes_def Let_def)
  then show ?thesis by (simp add: kept_def published_data_decodes)
qed

lemma poll_kept:
  "\<forall>m\<in>set ms. msg_topic m = shadowTopicIn s \<longrightarrow> \<not> sends (msg_send m) \<Longrightarrow>
   kept s (poll ms s)"
proof (induction ms arbitrary: s)
  case Nil
  show ?case by (simp add: kept_refl)
next
  case (Cons m ms)
  have k: "kept s (handleMessage m s)" using Cons.prems by (simp add: handleMessage_kept)
  have "kept (handleMessage m s) (poll ms (handleMessage m s))"
    using Cons.prems by (intro Cons.IH) (simp add: handleMessage_flag)
  with k show ?case by (simp add: kept_trans)
qed

lemma handler_kept:
  assumes "state s \<noteq> Connected"
  shows "kept s (snd (case state s of
               ConnectPhy \<Rightarrow> handle_ConnectPhy e s
             | SyncTime \<Rightarrow> handle_SyncTime e s
             | ConnectMqttBroker \<Rightarrow> handle_ConnectMqttBroker e s
             | SubscribeMqttTopics \<Rightarrow> handle_SubscribeMqttTopics e s
             | RequestLastValues \<Rightarrow> handle_RequestLastValues e s
             | Connected \<Rightarrow> handle_Connected cfg e s))"
  using assms
  by (cases "state s")
     (simp_all add: kept_def handle_ConnectPhy_def handle_SyncTime_def
        handle_ConnectMqttBroker_def handle_SubscribeMqttTopics_def
        handle_RequestLastValues_def requestLastValue_def write_msg_eq record_action_def
        execCloudEventCallback_def Let_def)

lemma update_unfold:
  "update cfg e s =
     (let h = (case state s of
               ConnectPhy \<Rightarrow> handle_ConnectPhy e s
             | SyncTime \<Rightarrow> handle_SyncTime e s
             | ConnectMqttBroker \<Rightarrow> handle_ConnectMqttBroker e s
             | SubscribeMqttTopics \<Rightarrow> handle_SubscribeMqttTopics e s
             | RequestLastValues \<Rightarrow> handle_RequestLastValues e s
             | Connected \<Rightarrow> handle_Connected cfg e s)
      in if system_reset (snd h) then snd h
         else if connected_at_poll e then poll (inbound e) ((snd h)\<lparr> state := fst h \<rparr>)
         else (snd h)\<lparr> state := fst h \<rparr>)"
  by (simp add: update_def Let_def split_beta)

lemma update_kept:
  assumes "state s \<noteq> Connected"
    and "\<forall>m\<in>set (inbound e). msg_topic m = shadowTopicIn s \<longrightarrow> \<not> sends (msg_send m)"
  shows "kept s (update cfg e s)"
proof -
  define h where "h = (case state s of
               ConnectPhy \<Rightarrow> handle_ConnectPhy e s
             | SyncTime \<Rightarrow> handle_SyncTime e s
             | ConnectMqttBroker \<Rightarrow> handle_ConnectMqttBroker e s
             | SubscribeMqttTopics \<Rightarrow> handle_SubscribeMqttTopics e s
             | RequestLastValues \<Rightarrow> handle_RequestLastValues e s
             | Connected \<Rightarrow> handle_Connected cfg e s)"
  define s2 where "s2 = (snd h)\<lparr> state := fst h \<rparr>"
  have k1: "kept s (snd h)" unfolding h_def using assms(1) by (rule handler_kept)
  then have k2: "kept s s2" unfolding s2_def by (rule kept_state_upd)
  then have "shadowTopicIn s2 = shadowTopicIn s" by (simp add: kept_def)
  then have "kept s2 (poll (inbound e) s2)" using assms(2) by (intro poll_kept) simp
  with k2 have k3: "kept s (poll (inbound e) s2)" by (rule kept_trans)
  have "update cfg e s =
      (if system_reset (snd h) then snd h
       else if connected_at_poll e then poll (inbound e) s2 else s2)"
    by (simp add: update_unfold h_def s2_def Let_def)
  then show ?thesis using k1 k2 k3 by simp
qed

lemma run_kept:
  assumes "\<forall>k<length es. state (run cfg (take k es) s) \<noteq> Connected"
    and "\<forall>e\<in>set es. \<forall>m\<in>set (inbound e).
           msg_topic m = shadowTopicIn s \<longrightarrow> \<not> sends (msg_send m)"
  shows "kept s (run cfg es s)"
  using assms
proof (induction es arbitrary: s)
  case Nil
  show ?case by (simp add: kept_refl)
next
  case (Cons e es)
  from Cons.prems(1) have st: "state s \<noteq> Connected" by fastforce
  have k1: "kept s (update cfg e s)" using st Cons.prems(2) by (simp add: update_kept)
  show ?case
  proof (cases "system_reset (update cfg e s)")
    case True
    then show ?thesis using k1 by simp
  next
    case False
    have "\<forall>k<length es. state (run cfg (take k es) (update cfg e s)) \<noteq> Connected"
    proof (intro allI impI)
      fix k assume "k < length es"
      then have "state (run cfg (take (Suc k) (e # es)) s) \<noteq> Connected"
        using Cons.prems(1) by (metis Suc_less_eq length_Cons)
      then show "state (run cfg (take k es) (update cfg e s)) \<noteq> Connected"
        using False by simp
    qed
    moreover have "shadowTopicIn (update cfg e s) = shadowTopicIn s"
      using k1 by (simp add: kept_def)
    ultimately have "kept (update cfg e s) (run cfg es (update cfg e s))"
      using Cons.prems(2) by (intro Cons.IH) simp_all
    with k1 have "kept s (run cfg es (update cfg e s))" by (rule kept_trans)
    then show ?thesis using False by simp
  qed
qed

subsection \<open>The tick in the Connected state\<close>

lemma handle_Connected_down:
  "\<not> mqtt_connected e \<Longrightarrow>
   handle_Connected cfg e s =
     (ConnectPhy, s\<lparr> mqtt_data_request_retransmit := True,
                      trace := trace s @ [MqttStop, CloudEvent DISCONNECT] \<rparr>)"
  by (simp add: handle_Connected_def record_action_def execCloudEventCallback_def Let_def)

lemma update_Connected_down:
  "state s = Connected \<Longrightarrow> \<not> system_reset s \<Longrightarrow> \<not> mqtt_connected e \<Longrightarrow>
   update cfg e s =
     s\<lparr> state := ConnectPhy, mqtt_data_request_retransmit := True,
        trace := trace s @ [MqttStop, CloudEvent DISCONNECT] @
                 (if connected_at_poll e then data_decodes (dataTopicIn s) (inbound e) else []) \<rparr>"
  by (simp add: update_def handle_Connected_down poll_idle)

lemma hc_resend:
  assumes "mqtt_connected e" "mqtt_data_request_retransmit s" "0 < mqtt_data_len s"
  shows "snd (handle_Connected cfg e s) =
     (snd (handle_Connected cfg e (s\<lparr> mqtt_data_request_retransmit := False \<rparr>)))
       \<lparr> trace := trace s @
            MqttPublish (dataTopicOut s) (payload s) (wire_result (retransmit_write e)) #
            drop (length (trace s))
              (trace (snd (handle_Connected cfg e (s\<lparr> mqtt_data_request_retransmit := False \<rparr>)))) \<rparr>"
  using assms
  apply (simp add: handle_Connected_def write_msg_eq Let_def payload_def)
  apply (simp add: sendPropertiesToCloud_eq)
  apply (simp add: onOTARequest_def)
  done

lemma hc_up_frame:
  assumes "mqtt_connected e"
  shows "fst (handle_Connected cfg e s) = Connected"
    and "state (snd (handle_Connected cfg e s)) = state s"
    and "dataTopicIn (snd (handle_Connected cfg e s)) = dataTopicIn s"
    and "dataTopicOut (snd (handle_Connected cfg e s)) = dataTopicOut s"
    and "take (length (trace s)) (trace (snd (handle_Connected cfg e s))) = trace s"
    and "shadowTopicIn (snd (handle_Connected cfg e s)) = shadowTopicIn s"
    and "shadowTopicOut (snd (handle_Connected cfg e s)) = shadowTopicOut s"
  using assms
  by (simp_all add: handle_Connected_def write_msg_eq Let_def sendPropertiesToCloud_eq
      onOTARequest_def)

lemma hc_up_flag:
  assumes "mqtt_connected e"
  shows "mqtt_data_request_retransmit (snd (handle_Connected cfg e s)) =
           (mqtt_data_request_retransmit s \<and> \<not> 0 < mqtt_data_len s)"
  using assms
  by (auto simp: handle_Connected_def write_msg_eq Let_def sendPropertiesToCloud_eq
      onOTARequest_def)

lemma hc_stored:
  assumes "mqtt_connected e" "sends (props_send e)"
  shows "0 < mqtt_data_len (snd (handle_Connected cfg e s))"
    and "(dataTopicOut s, payload (snd (handle_Connected cfg e s)))
           \<in> set (published (drop (length (trace s)) (trace (snd (handle_Connected cfg e s)))))"
  using assms
  by (simp_all add: handle_Connected_def write_msg_eq Let_def sendPropertiesToCloud_eq
      onOTARequest_def payload_def sends_def)

lemma update_Connected_up:
  assumes "state s = Connected" "mqtt_connected e"
  shows "update cfg e s =
     (if system_reset (snd (handle_Connected cfg e s)) then snd (handle_Connected cfg e s)
      else if connected_at_poll e then
        (snd (handle_Connected cfg e s))
          \<lparr> state := Connected,
            trace := trace (snd (handle_Connected cfg e s)) @
                     data_decodes (dataTopicIn s) (inbound e) \<rparr>
      else (snd (handle_Connected cfg e s))\<lparr> state := Connected \<rparr>)"
proof -
  define h where "h = snd (handle_Connected cfg e s)"
  have hc: "handle_Connected cfg e s = (Connected, h)"
    using hc_up_frame(1) [OF assms(2), of cfg s] by (simp add: h_def prod_eq_iff)
  have din: "dataTopicIn h = dataTopicIn s"
    using hc_up_frame(3) [OF assms(2), of cfg s] by (simp add: h_def)
  have "update cfg e s =
     (if system_reset h then h
      else if connected_at_poll e then poll (inbound e) (h\<lparr> state := Connected \<rparr>)
      else h\<lparr> state := Connected \<rparr>)"
    using assms(1) by (simp add: update_def hc)
  also have "poll (inbound e) (h\<lparr> state := Connected \<rparr>) =
      h\<lparr> state := Connected, trace := trace h @ data_decodes (dataTopicIn s) (inbound e) \<rparr>"
    by (simp add: poll_idle din)
  finally show ?thesis by (simp add: h_def)
qed

lemma resend_first:
  assumes "state s = Connected" "mqtt_connected e"
    "mqtt_data_request_retransmit s" "0 < mqtt_data_len s"
  shows "emitted s (update cfg e s) =
           MqttPublish (dataTopicOut s) (payload s) (wire_result (retransmit_write e)) #
           emitted (s\<lparr> mqtt_data_request_retransmit := False \<rparr>)
                   (update cfg e (s\<lparr> mqtt_data_request_retransmit := False \<rparr>))"
proof -
  define s' where "s' = s\<lparr> mqtt_data_request_retransmit := False \<rparr>"
  define h' where "h' = snd (handle_Connected cfg e s')"
  define h where "h = snd (handle_Connected cfg e s)"
  define X where "X = drop (length (trace s)) (trace h')"
  define pub where
    "pub = MqttPublish (dataTopicOut s) (payload s) (wire_result (retransmit_write e))"
  have s': "state s' = Connected" "trace s' = trace s" "dataTopicIn s' = dataTopicIn s"
    using assms(1) by (simp_all add: s'_def)
  have "take (length (trace s')) (trace h') = trace s'"
    unfolding h'_def using assms(2) by (rule hc_up_frame(5))
  then have th': "trace h' = trace s @ X"
    unfolding X_def s'(2) by (metis append_take_drop_id)
  have hh': "h = h'\<lparr> trace := trace s @ pub # X \<rparr>"
    unfolding h_def h'_def X_def pub_def s'_def using assms(2,3,4) by (rule hc_resend)
  have u: "update cfg e s =
     (if system_reset h then h
      else if connected_at_poll e then
        h\<lparr> state := Connected, trace := trace h @ data_decodes (dataTopicIn s) (inbound e) \<rparr>
      else h\<lparr> state := Connected \<rparr>)"
    unfolding h_def using assms(1,2) by (rule update_Connected_up)
  have u': "update cfg e s' =
     (if system_reset h' then h'
      else if connected_at_poll e then
        h'\<lparr> state := Connected, trace := trace h' @ data_decodes (dataTopicIn s) (inbound e) \<rparr>
      else h'\<lparr> state := Connected \<rparr>)"
    unfolding h'_def s'(3) [symmetric] using s'(1) assms(2) by (rule update_Connected_up)
  have "emitted s (update cfg e s) = pub # emitted s' (update cfg e s')"
    unfolding u u' by (simp add: emitted_def hh' th' s'(2))
  then show ?thesis by (simp add: pub_def s'_def)
qed

lemma handler_flag:
  "mqtt_data_request_retransmit
     (snd (case state s of
               ConnectPhy \<Rightarrow> handle_ConnectPhy e s
             | SyncTime \<Rightarrow> handle_SyncTime e s
             | ConnectMqttBroker \<Rightarrow> handle_ConnectMqttBroker e s
             | SubscribeMqttTopics \<Rightarrow> handle_SubscribeMqttTopics e s
             | RequestLastValues \<Rightarrow> handle_RequestLastValues e s
             | Connected \<Rightarrow> handle_Connected cfg e s)) =
     (if state s = Connected then
        (if mqtt_connected e then
           mqtt_data_request_retransmit s \<and> \<not> 0 < mqtt_data_len s
         else True)
      else mqtt_data_request_retransmit s)"
proof (cases "state s = Connected")
  case True
  then show ?thesis by (simp add: handle_Connected_down hc_up_flag)
next
  case False
  then show ?thesis using handler_kept [OF False, of e cfg] by (simp add: kept_def)
qed

lemma update_flag:
  "mqtt_data_request_retransmit (update cfg e s) =
     (if state s = Connected then
        (if mqtt_connected e then
           mqtt_data_request_retransmit s \<and> \<not> 0 < mqtt_data_len s
         else True)
      else mqtt_data_request_retransmit s)"
proof -
  define h where "h = (case state s of
               ConnectPhy \<Rightarrow> handle_ConnectPhy e s
             | SyncTime \<Rightarrow> handle_SyncTime e s
             | ConnectMqttBroker \<Rightarrow> handle_ConnectMqttBroker e s
             | SubscribeMqttTopics \<Rightarrow> handle_SubscribeMqttTopics e s
             | RequestLastValues \<Rightarrow> handle_RequestLastValues e s
             | Connected \<Rightarrow> handle_Connected cfg e s)"
  have "update cfg e s =
      (if system_reset (snd h) then snd h
       else if connected_at_poll e then poll (inbound e) ((snd h)\<lparr> state := fst h \<rparr>)
       else (snd h)\<lparr> state := fst h \<rparr>)"
    by (simp add: update_unfold h_def Let_def)
  then have "mqtt_data_request_retransmit (update cfg e s) =
      mqtt_data_request_retransmit (snd h)"
    by (simp add: poll_flag)
  then show ?thesis unfolding h_def by (simp only: handler_flag)
qed

lemma stored_and_published:
  assumes "state s = Connected" and "mqtt_connected e" and "sends (props_send e)"
    and "\<not> system_reset (update cfg e s)"
  shows "state (update cfg e s) = Connected"
    and "0 < mqtt_data_len (update cfg e s)"
    and "dataTopicOut (update cfg e s) = dataTopicOut s"
    and "shadowTopicOut (update cfg e s) = shadowTopicOut s"
    and "shadowTopicIn (update cfg e s) = shadowTopicIn s"
    and "(dataTopicOut s, payload (update cfg e s))
           \<in> set (published (emitted s (update cfg e s)))"
proof -
  define h where "h = snd (handle_Connected cfg e s)"
  define X where "X = drop (length (trace s)) (trace h)"
  have u: "update cfg e s =
     (if system_reset h then h
      else if connected_at_poll e then
        h\<lparr> state := Connected, trace := trace h @ data_decodes (dataTopicIn s) (inbound e) \<rparr>
      else h\<lparr> state := Connected \<rparr>)"
    unfolding h_def using assms(1,2) by (rule update_Connected_up)
  have nr: "\<not> system_reset h" using assms(4) unfolding u by (auto split: if_splits)
  have "take (length (trace s)) (trace h) = trace s"
    unfolding h_def using assms(2) by (rule hc_up_frame(5))
  then have th: "trace h = trace s @ X" unfolding X_def by (metis append_take_drop_id)
  have len: "0 < mqtt_data_len h" unfolding h_def using assms(2,3) by (rule hc_stored(1))
  have pub: "(dataTopicOut s, payload h) \<in> set (published X)"
    unfolding h_def X_def using assms(2,3) by (rule hc_stored(2))
  have tops: "dataTopicOut h = dataTopicOut s" "shadowTopicOut h = shadowTopicOut s"
    "shadowTopicIn h = shadowTopicIn s"
    unfolding h_def using assms(2) by (simp_all add: hc_up_frame)
  show "state (update cfg e s) = Connected" unfolding u using nr by simp
  show "0 < mqtt_data_len (update cfg e s)" unfolding u using nr len by simp
  show "dataTopicOut (update cfg e s) = dataTopicOut s" unfolding u using nr tops by simp
  show "shadowTopicOut (update cfg e s) = shadowTopicOut s" unfolding u using nr tops by simp
  show "shadowTopicIn (update cfg e s) = shadowTopicIn s" unfolding u using nr tops by simp
  show "(dataTopicOut s, payload (update cfg e s))
           \<in> set (published (emitted s (update cfg e s)))"
    unfolding u using nr pub by (simp add: emitted_def th payload_def published_append)
qed

subsection \<open>Sessions without shadow topics\<close>

lemma handler_no_sync:
  assumes "state s \<noteq> RequestLastValues" and "shadowTopicIn s = []"
  shows "fst (case state s of
               ConnectPhy \<Rightarrow> handle_ConnectPhy e s
             | SyncTime \<Rightarrow> handle_SyncTime e s
             | ConnectMqttBroker \<Rightarrow> handle_ConnectMqttBroker e s
             | SubscribeMqttTopics \<Rightarrow> handle_SubscribeMqttTopics e s
             | RequestLastValues \<Rightarrow> handle_RequestLastValues e s
             | Connected \<Rightarrow> handle_Connected cfg e s) \<noteq> RequestLastValues \<and>
         state (snd (case state s of
               ConnectPhy \<Rightarrow> handle_ConnectPhy e s
             | SyncTime \<Rightarrow> handle_SyncTime e s
             | ConnectMqttBroker \<Rightarrow> handle_ConnectMqttBroker e s
             | SubscribeMqttTopics \<Rightarrow> handle_SubscribeMqttTopics e s
             | RequestLastValues \<Rightarrow> handle_RequestLastValues e s
             | Connected \<Rightarrow> handle_Connected cfg e s)) = state s \<and>
         shadowTopicIn (snd (case state s of
               ConnectPhy \<Rightarrow> handle_ConnectPhy e s
             | SyncTime \<Rightarrow> handle_SyncTime e s
             | ConnectMqttBroker \<Rightarrow> handle_ConnectMqttBroker e s
             | SubscribeMqttTopics \<Rightarrow> handle_SubscribeMqttTopics e s
             | RequestLastValues \<Rightarrow> handle_RequestLastValues e s
             | Connected \<Rightarrow> handle_Connected cfg e s)) = [] \<and>
         (CloudEvent SYNC \<in> set (trace (snd (case state s of
               ConnectPhy \<Rightarrow> handle_ConnectPhy e s
             | SyncTime \<Rightarrow> handle_SyncTime e s
             | ConnectMqttBroker \<Rightarrow> handle_ConnectMqttBroker e s
             | SubscribeMqttTopics \<Rightarrow> handle_SubscribeMqttTopics e s
             | RequestLastValues \<Rightarrow> handle_RequestLastValues e s
             | Connected \<Rightarrow> handle_Connected cfg e s))) \<longrightarrow>
          CloudEvent SYNC \<in> set (trace s))"
proof (cases "state s")
  case Connected
  show ?thesis
  proof (cases "mqtt_connected e")
    case True
    then show ?thesis using Connected assms(2)
      by (simp add: handle_Connected_def write_msg_eq Let_def sendPropertiesToCloud_eq
          onOTARequest_def)
  next
    case False
    then show ?thesis using Connected assms(2) by (simp add: handle_Connected_down)
  qed
qed (use assms in \<open>simp_all add: handle_ConnectPhy_def handle_SyncTime_def
        handle_ConnectMqttBroker_def handle_SubscribeMqttTopics_def record_action_def
        execCloudEventCallback_def Let_def\<close>)

lemma update_no_sync:
  assumes "state s \<noteq> RequestLastValues" and "shadowTopicIn s = []"
  shows "state (update cfg e s) \<noteq> RequestLastValues \<and>
         shadowTopicIn (update cfg e s) = [] \<and>
         (CloudEvent SYNC \<in> set (trace (update cfg e s)) \<longrightarrow>
          CloudEvent SYNC \<in> set (trace s))"
proof -
  define h where "h = (case state s of
               ConnectPhy \<Rightarrow> handle_ConnectPhy e s
             | SyncTime \<Rightarrow> handle_SyncTime e s
             | ConnectMqttBroker \<Rightarrow> handle_ConnectMqttBroker e s
             | SubscribeMqttTopics \<Rightarrow> handle_SubscribeMqttTopics e s
             | RequestLastValues \<Rightarrow> handle_RequestLastValues e s
             | Connected \<Rightarrow> handle_Connected cfg e s)"
  define s2 where "s2 = (snd h)\<lparr> state := fst h \<rparr>"
  have h: "fst h \<noteq> RequestLastValues" "state (snd h) = state s" "shadowTopicIn (snd h) = []"
    "CloudEvent SYNC \<in> set (trace (snd h)) \<longrightarrow> CloudEvent SYNC \<in> set (trace s)"
    unfolding h_def using handler_no_sync [OF assms, of e cfg] by simp_all
  have s2: "state s2 \<noteq> RequestLastValues" using h(1) by (simp add: s2_def)
  have p: "poll (inbound e) s2 = s2\<lparr> trace := trace s2 @ data_decodes (dataTopicIn s2) (inbound e) \<rparr>"
    using s2 by (rule poll_idle)
  have u: "update cfg e s =
      (if system_reset (snd h) then snd h
       else if connected_at_poll e then poll (inbound e) s2 else s2)"
    by (simp add: update_unfold h_def s2_def Let_def)
  show ?thesis
    unfolding u p using h assms(1) by (simp add: s2_def not_in_data_decodes)
qed

lemma run_no_sync:
  assumes "state s \<noteq> RequestLastValues" and "shadowTopicIn s = []"
    and "CloudEvent SYNC \<notin> set (trace s)"
  shows "CloudEvent SYNC \<notin> set (trace (run cfg es s))"
  using assms
proof (induction es arbitrary: s)
  case Nil
  then show ?case by simp
next
  case (Cons e es)
  have u: "state (update cfg e s) \<noteq> RequestLastValues" "shadowTopicIn (update cfg e s) = []"
    "CloudEvent SYNC \<notin> set (trace (update cfg e s))"
    using update_no_sync [OF Cons.prems(1,2), of cfg e] Cons.prems(3) by auto
  show ?case
  proof (cases "system_reset (update cfg e s)")
    case True
    then show ?thesis using u(3) by simp
  next
    case False
    then show ?thesis using Cons.IH [OF u] by simp
  qed
qed

section \<open>The reconciliation request\<close>

lemma handle_RequestLastValues_eq:
  "handle_RequestLastValues e s =
     (RequestLastValues,
      if word_of_int TIMEOUT_FOR_LASTVALUES_SYNC < millis e - lastSyncRequestTickTime s then
        s\<lparr> trace := trace s @
               [MqttPublish (shadowTopicOut s) CBOR_REQUEST_LAST_VALUE_MSG
                  (wire_result (request_write e))],
           lastSyncRequestTickTime := millis e \<rparr>
      else s)"
  by (simp add: handle_RequestLastValues_def requestLastValue_def write_msg_eq Let_def)

text \<open>
  C7.  Every call of requestLastValue hands exactly the 22 bytes
  81 A2 00 63 72 3A 6D 03 6D 67 65 74 4C 61 73 74 56 61 6C 75 65 73 to the client, on
  the shadow-out topic, and logs nothing else; the tick in RequestLastValues publishes
  nothing but this.  The bytes are the headers 81 (array of one), A2 (map of two), the
  key 00, the header 63 and the three characters r:m, the key 03, the header 6D and the
  thirteen characters getLastValues.
\<close>

theorem requestLastValue_bytes:
  "length CBOR_REQUEST_LAST_VALUE_MSG = 22 \<and>
   emitted s (requestLastValue w s) =
     [MqttPublish (shadowTopicOut s)
        [0x81, 0xA2, 0x00, 0x63, 0x72, 0x3A, 0x6D, 0x03, 0x6D, 0x67, 0x65,
         0x74, 0x4C, 0x61, 0x73, 0x74, 0x56, 0x61, 0x6C, 0x75, 0x65, 0x73]
        (wire_result w)] \<and>
   set (published (emitted s (snd (handle_RequestLastValues e s)))) \<subseteq>
     {(shadowTopicOut s,
       [0x81, 0xA2, 0x00, 0x63, 0x72, 0x3A, 0x6D, 0x03, 0x6D, 0x67, 0x65,
        0x74, 0x4C, 0x61, 0x73, 0x74, 0x56, 0x61, 0x6C, 0x75, 0x65, 0x73])} \<and>
   CBOR_REQUEST_LAST_VALUE_MSG =
     [0x81, 0xA2, 0x00, 0x63] @ map of_char ''r:m'' @
     [0x03, 0x6D] @ map of_char ''getLastValues''"
  by (simp add: requestLastValue_def write_msg_eq emitted_def handle_RequestLastValues_eq
      CBOR_REQUEST_LAST_VALUE_MSG_def)

theorem requestLastValue_bytes_witness:
  "emitted sess_subscribed (requestLastValue wire_ok sess_subscribed) =
     [MqttPublish ''so''
        [0x81, 0xA2, 0x00, 0x63, 0x72, 0x3A, 0x6D, 0x03, 0x6D, 0x67, 0x65,
         0x74, 0x4C, 0x61, 0x73, 0x74, 0x56, 0x61, 0x6C, 0x75, 0x65, 0x73] 1]"
proof -
  have so: "shadowTopicOut sess_subscribed = ''so''" by code_simp
  have w: "wire_result wire_ok = 1" by code_simp
  show ?thesis
    using requestLastValue_bytes [of sess_subscribed wire_ok env_up] by (simp add: so w)
qed

text \<open>
  C4.  The tick in RequestLastValues stays in RequestLastValues; it publishes the request
  exactly when now - lastRequestTime exceeds the interval of 10000 ms (computed in
  32-bit unsigned arithmetic), and then sets lastRequestTime to now; so two such ticks
  whose clock values differ by less than the interval publish at most once.
\<close>

theorem request_timer:
  "TIMEOUT_FOR_LASTVALUES_SYNC = 10000 \<and>
   fst (handle_RequestLastValues e1 s) = RequestLastValues \<and>
   emitted s (snd (handle_RequestLastValues e1 s)) =
     (if word_of_int TIMEOUT_FOR_LASTVALUES_SYNC < millis e1 - lastSyncRequestTickTime s
      then [MqttPublish (shadowTopicOut s) CBOR_REQUEST_LAST_VALUE_MSG
              (wire_result (request_write e1))]
      else []) \<and>
   lastSyncRequestTickTime (snd (handle_RequestLastValues e1 s)) =
     (if word_of_int TIMEOUT_FOR_LASTVALUES_SYNC < millis e1 - lastSyncRequestTickTime s
      then millis e1 else lastSyncRequestTickTime s) \<and>
   (millis e2 - millis e1 < word_of_int TIMEOUT_FOR_LASTVALUES_SYNC \<longrightarrow>
    length (emitted s (snd (handle_RequestLastValues e2
                              (snd (handle_RequestLastValues e1 s))))) \<le> 1)"
  by (auto simp: handle_RequestLastValues_eq emitted_def TIMEOUT_FOR_LASTVALUES_SYNC_def)

theorem request_timer_witness:
  "millis (env_up\<lparr> millis := 25000 \<rparr>) - millis env_up
     < word_of_int TIMEOUT_FOR_LASTVALUES_SYNC \<and>
   emitted sess_subscribed (snd (handle_RequestLastValues env_up sess_subscribed)) =
     [MqttPublish ''so'' CBOR_REQUEST_LAST_VALUE_MSG 1] \<and>
   length (emitted sess_subscribed
             (snd (handle_RequestLastValues (env_up\<lparr> millis := 25000 \<rparr>)
                     (snd (handle_RequestLastValues env_up sess_subscribed))))) \<le> 1"
proof -
  have h: "millis (env_up\<lparr> millis := 25000 \<rparr>) - millis env_up
             < word_of_int TIMEOUT_FOR_LASTVALUES_SYNC"
    by code_simp
  have f: "word_of_int TIMEOUT_FOR_LASTVALUES_SYNC
             < millis env_up - lastSyncRequestTickTime sess_subscribed"
    by code_simp
  have so: "shadowTopicOut sess_subscribed = ''so''" by code_simp
  have w: "wire_result (request_write env_up) = 1" by code_simp
  show ?thesis
    using h request_timer [of env_up sess_subscribed "env_up\<lparr> millis := 25000 \<rparr>"]
    by (simp add: f so w)
qed

section \<open>The property-send path\<close>

text \<open>
  C8.  When the encoder reports a length of 0, sendPropertiesToCloud returns with the
  object as it was: nothing is published, the stored payload and its length are
  unchanged, and there is no error outcome.  So at its call sites: handling a message
  publishes nothing, and a tick in Connected with the transport connected, no
  retransmission due and no OTA request leaves the object as it was and stays in
  Connected.
\<close>

theorem send_nothing_encoded:
  assumes "bytes_encoded e = 0"
  shows "sendPropertiesToCloud e s = s \<and>
         published (emitted s (sendPropertiesToCloud e s)) = [] \<and>
         mqtt_data_buf (sendPropertiesToCloud e s) = mqtt_data_buf s \<and>
         mqtt_data_len (sendPropertiesToCloud e s) = mqtt_data_len s \<and>
         published (emitted s (handleMessage (m\<lparr> msg_send := e \<rparr>) s)) = [] \<and>
         (mqtt_connected en \<and>
          \<not> (mqtt_data_request_retransmit s \<and> 0 < mqtt_data_len s) \<and>
          \<not> (OTA_ENABLED cfg \<and> ota_req en) \<longrightarrow>
            handle_Connected cfg (en\<lparr> props_send := e \<rparr>) s = (Connected, s))"
proof -
  have q: "\<not> sends e" using assms by (simp add: sends_def)
  have "sendPropertiesToCloud e s = s" using q by (simp add: sendPropertiesToCloud_eq)
  moreover have "published (emitted s (handleMessage (m\<lparr> msg_send := e \<rparr>) s)) = []"
    using q
    by (simp add: handleMessage_quiet emitted_def published_append published_data_decodes)
  moreover have "mqtt_connected en \<and>
      \<not> (mqtt_data_request_retransmit s \<and> 0 < mqtt_data_len s) \<and>
      \<not> (OTA_ENABLED cfg \<and> ota_req en) \<longrightarrow>
        handle_Connected cfg (en\<lparr> props_send := e \<rparr>) s = (Connected, s)"
    using q by (auto simp: handle_Connected_def sendPropertiesToCloud_eq Let_def)
  ultimately show ?thesis by (simp add: emitted_def)
qed

theorem send_nothing_encoded_witness:
  "bytes_encoded nothing_to_send = 0 \<and>
   sendPropertiesToCloud nothing_to_send sess_sent = sess_sent \<and>
   published (emitted sess_sent (sendPropertiesToCloud nothing_to_send sess_sent)) = [] \<and>
   mqtt_connected env_up \<and>
   \<not> (mqtt_data_request_retransmit sess_sent \<and> 0 < mqtt_data_len sess_sent) \<and>
   \<not> (OTA_ENABLED cfg_plain \<and> ota_req env_up) \<and>
   handle_Connected cfg_plain (env_up\<lparr> props_send := nothing_to_send \<rparr>) sess_sent =
     (Connected, sess_sent)"
proof -
  have h: "bytes_encoded nothing_to_send = 0" by code_simp
  have c: "mqtt_connected env_up"
    "\<not> (mqtt_data_request_retransmit sess_sent \<and> 0 < mqtt_data_len sess_sent)"
    "\<not> (OTA_ENABLED cfg_plain \<and> ota_req env_up)"
    by code_simp+
  show ?thesis
    using h c send_nothing_encoded [OF h, of sess_sent "shadow_reply False nothing_to_send"
        env_up cfg_plain]
    by (simp add: emitted_def)
qed

section \<open>Detected disconnection\<close>

lemma count_list_data_decodes:
  "count_list (data_decodes din ms) MqttStop = 0"
  "count_list (data_decodes din ms) (CloudEvent ev) = 0"
  by (simp_all add: count_list_0_iff not_in_data_decodes)

text \<open>
  C2.  A tick taken in the Connected state, on a board that has not been reset, in
  which the transport reports disconnected ends in ConnectPhy with the retransmission
  flag set; during it the transport is stopped once and the Disconnect event is emitted
  once, in this order and before anything else.
\<close>

theorem connected_tick_transport_down:
  assumes "state s = Connected" and "\<not> system_reset s" and "\<not> mqtt_connected e"
  shows "state (update cfg e s) = ConnectPhy \<and>
         mqtt_data_request_retransmit (update cfg e s) \<and>
         count_list (emitted s (update cfg e s)) MqttStop = 1 \<and>
         count_list (emitted s (update cfg e s)) (CloudEvent DISCONNECT) = 1 \<and>
         take 2 (emitted s (update cfg e s)) = [MqttStop, CloudEvent DISCONNECT]"
  using assms by (simp add: update_Connected_down emitted_def count_list_data_decodes)

theorem connected_tick_transport_down_witness:
  "state conn_plain = Connected \<and> \<not> system_reset conn_plain \<and> \<not> mqtt_connected env_down \<and>
   state (update cfg_plain env_down conn_plain) = ConnectPhy \<and>
   mqtt_data_request_retransmit (update cfg_plain env_down conn_plain) \<and>
   count_list (emitted conn_plain (update cfg_plain env_down conn_plain))
     (CloudEvent DISCONNECT) = 1"
proof -
  have h1: "state conn_plain = Connected" by code_simp
  have h2: "\<not> system_reset conn_plain" by code_simp
  have h3: "\<not> mqtt_connected env_down" by code_simp
  show ?thesis
    using h1 h2 h3 connected_tick_transport_down [OF h1 h2 h3, of cfg_plain] by simp
qed

text \<open>
  C9, as the source has it.  The tick that detects the disconnection (in the Connected
  state, on a board that has not been reset) and goes back to ConnectPhy leaves the
  buffered payload, its length and the time of the last request as they were and sets
  the retransmission flag; they are empty, zero and false only in the freshly
  constructed object.
\<close>

theorem disconnect_keeps_record:
  assumes "state s = Connected" and "\<not> system_reset s" and "\<not> mqtt_connected e"
  shows "state (update cfg e s) = ConnectPhy \<and>
         mqtt_data_buf (update cfg e s) = mqtt_data_buf s \<and>
         mqtt_data_len (update cfg e s) = mqtt_data_len s \<and>
         lastSyncRequestTickTime (update cfg e s) = lastSyncRequestTickTime s \<and>
         mqtt_data_request_retransmit (update cfg e s) \<and>
         mqtt_data_buf (ArduinoIoTCloudTCP cap) = replicate cap 0 \<and>
         mqtt_data_len (ArduinoIoTCloudTCP cap) = 0 \<and>
         \<not> mqtt_data_request_retransmit (ArduinoIoTCloudTCP cap) \<and>
         lastSyncRequestTickTime (ArduinoIoTCloudTCP cap) = 0"
  using assms by (simp add: update_Connected_down ArduinoIoTCloudTCP_def)

theorem disconnect_keeps_record_witness:
  "state sess_sent = Connected \<and> \<not> system_reset sess_sent \<and> \<not> mqtt_connected env_down \<and>
   mqtt_data_buf (update cfg_plain env_down sess_sent) = mqtt_data_buf sess_sent \<and>
   mqtt_data_len (update cfg_plain env_down sess_sent) = mqtt_data_len sess_sent \<and>
   lastSyncRequestTickTime (update cfg_plain env_down sess_sent) =
     lastSyncRequestTickTime sess_sent"
proof -
  have h1: "state sess_sent = Connected" by code_simp
  have h2: "\<not> system_reset sess_sent" by code_simp
  have h3: "\<not> mqtt_connected env_down" by code_simp
  show ?thesis
    using h1 h2 h3 disconnect_keeps_record [OF h1 h2 h3, of cfg_plain] by simp
qed

text \<open>
  C9 as stated fails: in the example session the tick that detects the disconnection
  goes to ConnectPhy with the payload 1 of length 1 still buffered, the flag set and the
  time of the last request still 20000.
\<close>

theorem disconnect_resets_record_counterexample:
  "state sess_sent = Connected \<and> \<not> mqtt_connected env_down \<and>
   sess_lost = update cfg_plain env_down sess_sent \<and>
   state sess_lost = ConnectPhy \<and>
   payload sess_lost = [1] \<and> mqtt_data_len sess_lost = 1 \<and>
   mqtt_data_request_retransmit sess_lost \<and>
   lastSyncRequestTickTime sess_lost = 20000"
proof -
  have "state sess_sent = Connected" by code_simp
  moreover have "\<not> mqtt_connected env_down" by code_simp
  moreover have "state sess_lost = ConnectPhy" by code_simp
  moreover have "payload sess_lost = [1]" by code_simp
  moreover have "mqtt_data_len sess_lost = 1" by code_simp
  moreover have "mqtt_data_request_retransmit sess_lost" by code_simp
  moreover have "lastSyncRequestTickTime sess_lost = 20000" by code_simp
  ultimately show ?thesis by (simp add: sess_lost_def)
qed

section \<open>Inbound messages\<close>

text \<open>
  C10.  A message on the shadow-in topic that arrives while the state is not
  RequestLastValues leaves the state as it is; no decode with the snapshot flag is made,
  no Sync event is emitted and nothing is published: the only call it can cause is the
  partial decode of the data-in branch, when the two topics coincide.
\<close>

theorem shadow_message_outside_handshake:
  assumes "msg_topic m = shadowTopicIn s" and "state s \<noteq> RequestLastValues"
  shows "state (handleMessage m s) = state s \<and>
         CborDecode (msg_bytes m) True \<notin> set (emitted s (handleMessage m s)) \<and>
         CloudEvent SYNC \<notin> set (emitted s (handleMessage m s)) \<and>
         published (emitted s (handleMessage m s)) = [] \<and>
         emitted s (handleMessage m s) =
           (if dataTopicIn s = msg_topic m then [CborDecode (msg_bytes m) False] else [])"
  using assms(2) by (simp add: handleMessage_idle emitted_def data_decodes_def)

theorem shadow_message_outside_handshake_witness:
  "msg_topic (shadow_reply False (sending [2])) = shadowTopicIn sess_synced \<and>
   state sess_synced \<noteq> RequestLastValues \<and>
   state (handleMessage (shadow_reply False (sending [2])) sess_synced) = state sess_synced \<and>
   emitted sess_synced (handleMessage (shadow_reply False (sending [2])) sess_synced) = []"
proof -
  have h1: "msg_topic (shadow_reply False (sending [2])) = shadowTopicIn sess_synced"
    by code_simp
  have h2: "state sess_synced \<noteq> RequestLastValues" by code_simp
  have d: "dataTopicIn sess_synced \<noteq> msg_topic (shadow_reply False (sending [2]))"
    by code_simp
  show ?thesis
    using h1 h2 d shadow_message_outside_handshake [OF h1 h2] by simp
qed

text \<open>
  C6, as the source has it.  The state after handling a message does not depend on the
  verdict of the decoder: it is Connected when the message is on the shadow-in topic and
  the state is RequestLastValues, and unchanged otherwise, for malformed and well-formed
  bytes alike.
\<close>

theorem handleMessage_state:
  "state (handleMessage m s) =
     (if shadowTopicIn s = msg_topic m \<and> state s = RequestLastValues then Connected
      else state s) \<and>
   state (handleMessage (m\<lparr> msg_malformed := bad \<rparr>) s) = state (handleMessage m s)"
  by (simp add: handleMessage_def decode_def record_action_def Let_def
      sendPropertiesToCloud_eq execCloudEventCallback_def)

theorem handleMessage_state_witness:
  "msg_malformed (shadow_reply True nothing_to_send) \<and>
   state (handleMessage (shadow_reply True nothing_to_send) sess_synced) = state sess_synced"
proof -
  have h: "msg_malformed (shadow_reply True nothing_to_send)" by code_simp
  have st: "state sess_synced \<noteq> RequestLastValues" by code_simp
  show ?thesis
    using h st handleMessage_state [of "shadow_reply True nothing_to_send" sess_synced]
    by simp
qed

text \<open>
  C6 as stated fails: a malformed reply on the shadow-in topic that arrives while the
  session waits in RequestLastValues moves it to Connected.
\<close>

theorem malformed_reply_counterexample:
  "msg_malformed (shadow_reply True nothing_to_send) \<and>
   state sess_waiting = RequestLastValues \<and>
   state (handleMessage (shadow_reply True nothing_to_send) sess_waiting) = Connected"
proof -
  have "msg_malformed (shadow_reply True nothing_to_send)" by code_simp
  moreover have "state sess_waiting = RequestLastValues" by code_simp
  moreover have
    "state (handleMessage (shadow_reply True nothing_to_send) sess_waiting) = Connected"
    by code_simp
  ultimately show ?thesis by simp
qed

section \<open>Subscription\<close>

lemma handleMessage_no_connect:
  "\<exists>Y. trace (handleMessage m s) = trace s @ Y \<and> CloudEvent CONNECT \<notin> set Y"
  by (simp add: handleMessage_def decode_def record_action_def Let_def
      sendPropertiesToCloud_eq execCloudEventCallback_def)

lemma poll_no_connect:
  "\<exists>X. trace (poll ms s) = trace s @ X \<and> CloudEvent CONNECT \<notin> set X"
proof (induction ms arbitrary: s)
  case Nil
  show ?case by simp
next
  case (Cons m ms)
  obtain Y where Y: "trace (handleMessage m s) = trace s @ Y" "CloudEvent CONNECT \<notin> set Y"
    using handleMessage_no_connect by blast
  obtain X where X: "trace (poll ms (handleMessage m s)) = trace (handleMessage m s) @ X"
    "CloudEvent CONNECT \<notin> set X"
    using Cons.IH by blast
  have "trace (poll (m # ms) s) = trace s @ (Y @ X)" using X(1) Y(1) by simp
  moreover have "CloudEvent CONNECT \<notin> set (Y @ X)" using X(2) Y(2) by simp
  ultimately show ?case by blast
qed

lemma poll_other_topics:
  "list_all (\<lambda>m. msg_topic m \<noteq> shadowTopicIn s) ms \<Longrightarrow> state (poll ms s) = state s"
proof (induction ms arbitrary: s)
  case Nil
  show ?case by simp
next
  case (Cons m ms)
  have t: "msg_topic m \<noteq> shadowTopicIn s" using Cons.prems by simp
  then have st: "state (handleMessage m s) = state s"
    by (auto simp: handleMessage_def decode_def record_action_def Let_def)
  have "list_all (\<lambda>m'. msg_topic m' \<noteq> shadowTopicIn (handleMessage m s)) ms"
    using Cons.prems by (simp add: handleMessage_flag)
  then have "state (poll ms (handleMessage m s)) = state (handleMessage m s)"
    by (rule Cons.IH)
  then show ?case using st by simp
qed

lemma subscribe_tick:
  assumes "state s = SubscribeMqttTopics" and "\<not> system_reset s"
    and "subscribe_data_ok e" and "shadowTopicIn s \<noteq> [] \<longrightarrow> subscribe_shadow_ok e"
  shows "count_list (emitted s (update cfg e s)) (CloudEvent CONNECT) = 1"
    and "list_all (\<lambda>m. msg_topic m \<noteq> shadowTopicIn s) (inbound e) \<Longrightarrow>
         state (update cfg e s) =
           (if shadowTopicIn s \<noteq> [] then RequestLastValues else Connected)"
proof -
  define nxt where "nxt = (if shadowTopicIn s \<noteq> [] then RequestLastValues else Connected)"
  define A where
    "A = MqttSubscribe (dataTopicIn s) #
         (if shadowTopicIn s \<noteq> [] then [MqttSubscribe (shadowTopicIn s)] else []) @
         [CloudEvent CONNECT]"
  define s2 where "s2 = s\<lparr> trace := trace s @ A, state := nxt \<rparr>"
  have h: "handle_SubscribeMqttTopics e s = (nxt, s\<lparr> trace := trace s @ A \<rparr>)"
    using assms(3,4)
    by (simp add: handle_SubscribeMqttTopics_def record_action_def execCloudEventCallback_def
        Let_def nxt_def A_def)
  have u: "update cfg e s = (if connected_at_poll e then poll (inbound e) s2 else s2)"
    using assms(1,2) by (simp add: update_def h s2_def)
  obtain X where X: "trace (poll (inbound e) s2) = trace s2 @ X" "CloudEvent CONNECT \<notin> set X"
    using poll_no_connect by blast
  have cA: "count_list A (CloudEvent CONNECT) = 1" by (simp add: A_def)
  have cX: "count_list X (CloudEvent CONNECT) = 0" using X(2) by (simp add: count_list_0_iff)
  have t2: "trace s2 = trace s @ A" by (simp add: s2_def)
  have tp: "trace (poll (inbound e) s2) = trace s @ A @ X" using X(1) t2 by simp
  show "count_list (emitted s (update cfg e s)) (CloudEvent CONNECT) = 1"
    unfolding u using cA cX by (simp add: emitted_def tp t2)
  show "state (update cfg e s) =
           (if shadowTopicIn s \<noteq> [] then RequestLastValues else Connected)"
    if "list_all (\<lambda>m. msg_topic m \<noteq> shadowTopicIn s) (inbound e)"
  proof -
    have "list_all (\<lambda>m. msg_topic m \<noteq> shadowTopicIn s2) (inbound e)"
      using that by (simp add: s2_def)
    then have "state (poll (inbound e) s2) = state s2" by (rule poll_other_topics)
    moreover have "state s2 = nxt" by (simp add: s2_def)
    ultimately have "state (update cfg e s) = nxt" unfolding u by simp
    then show ?thesis by (simp only: nxt_def)
  qed
qed

text \<open>
  C3.  When the subscription to data-in succeeds, and the one to shadow-in too if that
  topic is not empty, the handler of SubscribeMqttTopics emits the Connect event exactly
  once and returns RequestLastValues if the shadow-in topic is not empty, else
  Connected.  The whole call of update() then emits the Connect event exactly once, and
  it ends in the state the handler returned when the poll at its end delivers no message
  on the shadow-in topic.  In a session begun with an empty shadow-in topic no Sync
  event is ever emitted.
\<close>

theorem subscribe_success:
  assumes "subscribe_data_ok e" and "shadowTopicIn s \<noteq> [] \<longrightarrow> subscribe_shadow_ok e"
  shows "fst (handle_SubscribeMqttTopics e s) =
           (if shadowTopicIn s \<noteq> [] then RequestLastValues else Connected) \<and>
         count_list (emitted s (snd (handle_SubscribeMqttTopics e s))) (CloudEvent CONNECT) = 1 \<and>
         count_list (emitted s (snd (handle_SubscribeMqttTopics e s))) (CloudEvent SYNC) = 0 \<and>
         (state s = SubscribeMqttTopics \<and> \<not> system_reset s \<longrightarrow>
            count_list (emitted s (update cfg e s)) (CloudEvent CONNECT) = 1 \<and>
            (list_all (\<lambda>m. msg_topic m \<noteq> shadowTopicIn s) (inbound e) \<longrightarrow>
               state (update cfg e s) =
                 (if shadowTopicIn s \<noteq> [] then RequestLastValues else Connected))) \<and>
         CloudEvent SYNC \<notin>
           set (trace (run cfg es (snd (begin_tcp hw_ok so [] dout din (ArduinoIoTCloudTCP cap)))))"
proof -
  have tick: "state s = SubscribeMqttTopics \<and> \<not> system_reset s \<longrightarrow>
      count_list (emitted s (update cfg e s)) (CloudEvent CONNECT) = 1 \<and>
      (list_all (\<lambda>m. msg_topic m \<noteq> shadowTopicIn s) (inbound e) \<longrightarrow>
         state (update cfg e s) =
           (if shadowTopicIn s \<noteq> [] then RequestLastValues else Connected))"
    using subscribe_tick [OF _ _ assms, of cfg] by blast
  have "CloudEvent SYNC \<notin>
      set (trace (run cfg es (snd (begin_tcp hw_ok so [] dout din (ArduinoIoTCloudTCP cap)))))"
    by (rule run_no_sync) (simp_all add: begin_tcp_def ArduinoIoTCloudTCP_def)
  moreover have "fst (handle_SubscribeMqttTopics e s) =
           (if shadowTopicIn s \<noteq> [] then RequestLastValues else Connected) \<and>
         count_list (emitted s (snd (handle_SubscribeMqttTopics e s))) (CloudEvent CONNECT) = 1 \<and>
         count_list (emitted s (snd (handle_SubscribeMqttTopics e s))) (CloudEvent SYNC) = 0"
    using assms
    by (simp add: handle_SubscribeMqttTopics_def record_action_def execCloudEventCallback_def
        emitted_def Let_def)
  ultimately show ?thesis using tick by blast
qed

theorem subscribe_success_witness:
  "subscribe_data_ok env_up \<and>
   shadowTopicIn (run cfg_plain [env_up, env_up, env_up] boot_plain) = [] \<and>
   fst (handle_SubscribeMqttTopics env_up (run cfg_plain [env_up, env_up, env_up] boot_plain))
     = Connected \<and>
   count_list
     (emitted (run cfg_plain [env_up, env_up, env_up] boot_plain)
        (snd (handle_SubscribeMqttTopics env_up
                (run cfg_plain [env_up, env_up, env_up] boot_plain))))
     (CloudEvent CONNECT) = 1 \<and>
   CloudEvent SYNC \<notin>
     set (trace (run cfg_plain [env_up, env_up, env_up, env_up, env_up, env_down]
                   (snd (begin_tcp True [] [] ''do'' ''di'' (ArduinoIoTCloudTCP 8))))) \<and>
   shadowTopicIn (run cfg_plain [env_up, env_up, env_up] boot_shadow) = ''si'' \<and>
   subscribe_shadow_ok env_up \<and>
   fst (handle_SubscribeMqttTopics env_up (run cfg_plain [env_up, env_up, env_up] boot_shadow))
     = RequestLastValues \<and>
   state (run cfg_plain [env_up, env_up, env_up] boot_shadow) = SubscribeMqttTopics \<and>
   \<not> system_reset (run cfg_plain [env_up, env_up, env_up] boot_shadow) \<and>
   list_all (\<lambda>m. msg_topic m \<noteq> ''si'') (inbound env_up) \<and>
   state (update cfg_plain env_up (run cfg_plain [env_up, env_up, env_up] boot_shadow))
     = RequestLastValues \<and>
   count_list
     (emitted (run cfg_plain [env_up, env_up, env_up] boot_shadow)
        (update cfg_plain env_up (run cfg_plain [env_up, env_up, env_up] boot_shadow)))
     (CloudEvent CONNECT) = 1"
proof -
  have u: "state (run cfg_plain [env_up, env_up, env_up] boot_shadow) = SubscribeMqttTopics"
    "\<not> system_reset (run cfg_plain [env_up, env_up, env_up] boot_shadow)"
    "list_all (\<lambda>m. msg_topic m \<noteq> ''si'') (inbound env_up)"
    by code_simp+
  have t2: "shadowTopicIn (run cfg_plain [env_up, env_up, env_up] boot_shadow) = ''si''"
    by code_simp
  have h3: "subscribe_shadow_ok env_up" by code_simp
  have h1: "subscribe_data_ok env_up" by code_simp
  have t: "shadowTopicIn (run cfg_plain [env_up, env_up, env_up] boot_plain) = []"
    by code_simp
  then have h2: "shadowTopicIn (run cfg_plain [env_up, env_up, env_up] boot_plain) \<noteq> [] \<longrightarrow>
      subscribe_shadow_ok env_up" by simp
  have h4: "shadowTopicIn (run cfg_plain [env_up, env_up, env_up] boot_shadow) \<noteq> [] \<longrightarrow>
      subscribe_shadow_ok env_up" using h3 by simp
  show ?thesis
    using h1 h3 u
      subscribe_success [OF h1 h2, of cfg_plain
        "[env_up, env_up, env_up, env_up, env_up, env_down]" True "[]" "''do''" "''di''" 8]
      subscribe_success [OF h1 h4, of cfg_plain "[]" True "[]" "[]" "[]" 0]
    by (simp add: t t2 del: run.simps)
qed

section \<open>Retransmission\<close>

text \<open>
  C5, as the source has it.  A call of update() leaves the retransmission flag as it was
  unless the state is Connected: there the flag becomes true when the transport reports
  disconnected, whatever the buffer holds, and with the transport connected it is
  cleared exactly when it was set and the buffered length is positive; the tick that
  clears it first calls write for the buffered payload, and clears it whatever write
  returns.  Handling a message never changes the flag, and the constructor clears it.
\<close>

theorem retransmit_flag_rule:
  "mqtt_data_request_retransmit (update cfg e s) =
     (if state s = Connected then
        (if mqtt_connected e then
           mqtt_data_request_retransmit s \<and> \<not> 0 < mqtt_data_len s
         else True)
      else mqtt_data_request_retransmit s) \<and>
   (state s = Connected \<and> mqtt_connected e \<and>
    mqtt_data_request_retransmit s \<and> 0 < mqtt_data_len s \<longrightarrow>
      take 1 (emitted s (update cfg e s)) =
        [MqttPublish (dataTopicOut s) (payload s) (wire_result (retransmit_write e))]) \<and>
   mqtt_data_request_retransmit (handleMessage m s) = mqtt_data_request_retransmit s \<and>
   \<not> mqtt_data_request_retransmit (ArduinoIoTCloudTCP cap)"
  by (simp add: update_flag [of cfg e s] resend_first handleMessage_flag ArduinoIoTCloudTCP_def)

theorem retransmit_flag_rule_witness:
  "state sess_lost \<noteq> Connected \<and>
   mqtt_data_request_retransmit (update cfg_plain env_up sess_lost) =
     mqtt_data_request_retransmit sess_lost \<and>
   state sess_sent = Connected \<and> \<not> mqtt_connected env_down \<and>
   mqtt_data_request_retransmit (update cfg_plain env_down sess_sent) \<and>
   state sess_quiet_back = Connected \<and> mqtt_connected env_late \<and>
   mqtt_data_request_retransmit sess_quiet_back \<and> 0 < mqtt_data_len sess_quiet_back \<and>
   take 1 (emitted sess_quiet_back (update cfg_plain env_late sess_quiet_back)) =
     [MqttPublish ''do'' [1] 1] \<and>
   \<not> mqtt_data_request_retransmit (update cfg_plain env_late sess_quiet_back)"
proof -
  have h1: "state sess_lost \<noteq> Connected" by code_simp
  have h2: "state sess_sent = Connected" by code_simp
  have h3: "\<not> mqtt_connected env_down" by code_simp
  have h4: "state sess_quiet_back = Connected" "mqtt_connected env_late"
    "mqtt_data_request_retransmit sess_quiet_back" "0 < mqtt_data_len sess_quiet_back"
    by code_simp+
  have v: "dataTopicOut sess_quiet_back = ''do''" "payload sess_quiet_back = [1]"
    "wire_result (retransmit_write env_late) = 1"
    by code_simp+
  show ?thesis
    using h1 h2 h3 h4
      retransmit_flag_rule [of cfg_plain env_up sess_lost]
      retransmit_flag_rule [of cfg_plain env_down sess_sent]
      retransmit_flag_rule [of cfg_plain env_late sess_quiet_back]
    by (simp add: v)
qed

text \<open>
  C5 as stated fails: the session without shadow topics reaches Connected without
  having sent anything; the tick that then finds the transport down sets the flag while
  the buffered length is still 0.
\<close>

theorem pending_without_payload_counterexample:
  "mqtt_data_request_retransmit
     (run cfg_plain [env_up, env_up, env_up, env_up, env_down] boot_plain) \<and>
   \<not> 0 < mqtt_data_len
     (run cfg_plain [env_up, env_up, env_up, env_up, env_down] boot_plain)"
  by code_simp

text \<open>
  The retransmission when nothing overwrites the buffer.  Let the session be in the
  Connected state with a payload buffered (the one that sendPropertiesToCloud stored
  and published last); let a tick find the transport disconnected; let further ticks
  lead back to the Connected state, none of them starting in Connected, and let no
  reply on the shadow-in topic handled meanwhile encode anything.  Then nothing but
  reconciliation requests is published on the way back, and the first tick in Connected
  with the transport connected publishes the buffered payload on the data-out topic
  first, then does exactly what it would do with no retransmission pending, and leaves
  the flag cleared.
\<close>

lemma resend_after_reconnect:
  fixes cfg :: config and e2 e3 :: env and es :: "env list" and s1 :: cloud
  defines "s2 \<equiv> update cfg e2 s1"
  defines "s3 \<equiv> run cfg es s2"
  assumes conn: "state s1 = Connected"
    and len1: "0 < mqtt_data_len s1"
    and run1: "\<not> system_reset s1"
    and down: "\<not> mqtt_connected e2"
    and away: "\<forall>k<length es. state (run cfg (take k es) s2) \<noteq> Connected"
    and quiet: "\<forall>e\<in>set es. \<forall>m\<in>set (inbound e).
                  msg_topic m = shadowTopicIn s1 \<longrightarrow> \<not> sends (msg_send m)"
    and home: "state s3 = Connected"
    and up3: "mqtt_connected e3"
  shows "set (published (emitted s1 s3)) \<subseteq> {(shadowTopicOut s1, CBOR_REQUEST_LAST_VALUE_MSG)} \<and>
         emitted s3 (update cfg e3 s3) =
           MqttPublish (dataTopicOut s1) (payload s1) (wire_result (retransmit_write e3)) #
           emitted (s3\<lparr> mqtt_data_request_retransmit := False \<rparr>)
                   (update cfg e3 (s3\<lparr> mqtt_data_request_retransmit := False \<rparr>)) \<and>
         \<not> mqtt_data_request_retransmit (update cfg e3 s3)"
proof -
  define D where
    "D = (if connected_at_poll e2 then data_decodes (dataTopicIn s1) (inbound e2) else [])"
  have s2: "s2 = s1\<lparr> state := ConnectPhy, mqtt_data_request_retransmit := True,
                      trace := trace s1 @ [MqttStop, CloudEvent DISCONNECT] @ D \<rparr>"
    unfolding s2_def D_def using conn run1 down by (rule update_Connected_down)
  have pD: "published D = []" by (simp add: D_def published_data_decodes)
  have "shadowTopicIn s2 = shadowTopicIn s1" by (simp add: s2)
  with quiet have quiet2: "\<forall>e\<in>set es. \<forall>m\<in>set (inbound e).
      msg_topic m = shadowTopicIn s2 \<longrightarrow> \<not> sends (msg_send m)"
    by simp
  have k: "kept s2 s3" unfolding s3_def using away quiet2 by (rule run_kept)
  then obtain tr where tr: "trace s3 = trace s2 @ tr"
    "set (published tr) \<subseteq> {(shadowTopicOut s2, CBOR_REQUEST_LAST_VALUE_MSG)}"
    by (auto simp: kept_def)
  have f3: "mqtt_data_buf s3 = mqtt_data_buf s1" "mqtt_data_len s3 = mqtt_data_len s1"
    "mqtt_data_request_retransmit s3" "dataTopicOut s3 = dataTopicOut s1"
    using k by (simp_all add: kept_def s2)
  have p3: "payload s3 = payload s1" by (simp add: payload_def f3)
  have "emitted s1 s3 = [MqttStop, CloudEvent DISCONNECT] @ D @ tr"
    by (simp add: emitted_def tr(1) s2)
  then have "published (emitted s1 s3) = published tr"
    by (simp add: published_append pD)
  moreover have "shadowTopicOut s2 = shadowTopicOut s1" by (simp add: s2)
  ultimately have quiet_wire:
    "set (published (emitted s1 s3)) \<subseteq> {(shadowTopicOut s1, CBOR_REQUEST_LAST_VALUE_MSG)}"
    using tr(2) by simp
  have len3: "0 < mqtt_data_len s3" using len1 f3(2) by simp
  have "emitted s3 (update cfg e3 s3) =
           MqttPublish (dataTopicOut s3) (payload s3) (wire_result (retransmit_write e3)) #
           emitted (s3\<lparr> mqtt_data_request_retransmit := False \<rparr>)
                   (update cfg e3 (s3\<lparr> mqtt_data_request_retransmit := False \<rparr>))"
    using home up3 f3(3) len3 by (rule resend_first)
  then have first: "emitted s3 (update cfg e3 s3) =
           MqttPublish (dataTopicOut s1) (payload s1) (wire_result (retransmit_write e3)) #
           emitted (s3\<lparr> mqtt_data_request_retransmit := False \<rparr>)
                   (update cfg e3 (s3\<lparr> mqtt_data_request_retransmit := False \<rparr>))"
    by (simp only: p3 f3(4))
  have cleared: "\<not> mqtt_data_request_retransmit (update cfg e3 s3)"
    using home up3 len3 by (simp add: update_flag)
  show ?thesis using quiet_wire first cleared by blast
qed

text \<open>
  So it goes in the example session when the reply handled during the reconnection
  encodes nothing, also with an idle tick in Connected between the send and the
  disconnection: the first tick back in Connected publishes the byte 1 again.
\<close>

lemma resend_example:
  "emitted sess_quiet_back (update cfg_plain env_late sess_quiet_back) =
     [MqttPublish ''do'' [1] 1] \<and>
   emitted (run cfg_plain quiet_ticks (update cfg_plain env_down (update cfg_plain env_up sess_sent)))
     (update cfg_plain env_late
        (run cfg_plain quiet_ticks (update cfg_plain env_down (update cfg_plain env_up sess_sent)))) =
     [MqttPublish ''do'' [1] 1]"
  by code_simp

text \<open>
  C1.  The claim: after a payload P is encoded and transmitted while Connected, a
  disconnection is detected and the session reconnects, the first tick in Connected
  resends exactly P once, before any newly encoded payload.  The source does not do
  this when the reply on the shadow-in topic encodes something.  In the example session
  the byte 1 is encoded and published while Connected and the next tick detects the
  disconnection, which sets the retransmission flag.  The reconnection passes through
  ConnectPhy, SyncTime, ConnectMqttBroker, SubscribeMqttTopics and RequestLastValues;
  there handleMessage handles the reply and calls sendPropertiesToCloud, which encodes
  and publishes the byte 2 and overwrites the buffer while the flag is still set.  The
  first tick back in Connected then publishes the byte 2 a second time, and the byte 1
  is never sent again.
\<close>

theorem lost_payload_not_resent:
  "state sess_synced = Connected \<and>
   emitted sess_synced sess_sent = [MqttPublish ''do'' [1] 1] \<and>
   sess_lost = update cfg_plain env_down sess_sent \<and>
   state sess_lost = ConnectPhy \<and> mqtt_data_request_retransmit sess_lost \<and>
   payload sess_lost = [1] \<and>
   sess_back = run cfg_plain reconnect_ticks sess_lost \<and>
   map (\<lambda>k. state (run cfg_plain (take k reconnect_ticks) sess_lost)) [0 ..< 6] =
     [ConnectPhy, SyncTime, ConnectMqttBroker, SubscribeMqttTopics,
      RequestLastValues, RequestLastValues] \<and>
   state sess_back = Connected \<and>
   published (emitted sess_lost sess_back) =
     [(''so'', CBOR_REQUEST_LAST_VALUE_MSG), (''do'', [2])] \<and>
   mqtt_data_request_retransmit sess_back \<and> payload sess_back = [2] \<and>
   mqtt_connected env_late \<and>
   emitted sess_back (update cfg_plain env_late sess_back) = [MqttPublish ''do'' [2] 1] \<and>
   MqttPublish ''do'' [1] 1 \<notin> set (emitted sess_lost (update cfg_plain env_late sess_back))"
proof -
  have "state sess_synced = Connected" by code_simp
  moreover have "emitted sess_synced sess_sent = [MqttPublish ''do'' [1] 1]" by code_simp
  moreover have "state sess_lost = ConnectPhy" by code_simp
  moreover have "mqtt_data_request_retransmit sess_lost" by code_simp
  moreover have "payload sess_lost = [1]" by code_simp
  moreover have
    "map (\<lambda>k. state (run cfg_plain (take k reconnect_ticks) sess_lost)) [0 ..< 6] =
       [ConnectPhy, SyncTime, ConnectMqttBroker, SubscribeMqttTopics,
        RequestLastValues, RequestLastValues]"
    by code_simp
  moreover have "state sess_back = Connected" by code_simp
  moreover have "published (emitted sess_lost sess_back) =
      [(''so'', CBOR_REQUEST_LAST_VALUE_MSG), (''do'', [2])]"
    by code_simp
  moreover have "mqtt_data_request_retransmit sess_back" by code_simp
  moreover have "payload sess_back = [2]" by code_simp
  moreover have "mqtt_connected env_late" by code_simp
  moreover have
    "emitted sess_back (update cfg_plain env_late sess_back) = [MqttPublish ''do'' [2] 1]"
    by code_simp
  moreover have
    "MqttPublish ''do'' [1] 1 \<notin> set (emitted sess_lost (update cfg_plain env_late sess_back))"
    by code_simp
  ultimately show ?thesis by (simp add: sess_lost_def sess_back_def)
qed

end
